theory Spec2Isabelle
  imports Complex_Main "HOL-Library.Word"
begin

section \<open>JavaScript strings\<close>

text \<open>
  A JavaScript string is a sequence of UTF-16 code units; \<^verbatim>\<open>length\<close>,
  \<^verbatim>\<open>substring\<close> and \<^verbatim>\<open>trim\<close> all work on code units. String literals
  of the source are ASCII and are written through \<open>js\<close>.
\<close>

type_synonym jsstring = "16 word list"

definition js :: "string \<Rightarrow> jsstring" where
  "js s = map of_char s"

text \<open>
  \<^verbatim>\<open>String.prototype.trim\<close> removes WhiteSpace and LineTerminator code units
  from both ends: TAB, LF, VT, FF, CR, SP, NBSP, U+1680, U+2000..U+200A, U+2028,
  U+2029, U+202F, U+205F, U+3000 and U+FEFF.
\<close>

definition isTrimUnit :: "16 word \<Rightarrow> bool" where
  "isTrimUnit c \<longleftrightarrow>
     c = 0x09 \<or> c = 0x0A \<or> c = 0x0B \<or> c = 0x0C \<or> c = 0x0D \<or> c = 0x20 \<or> c = 0xA0 \<or>
     c = 0x1680 \<or> (0x2000 \<le> c \<and> c \<le> 0x200A) \<or> c = 0x2028 \<or> c = 0x2029 \<or>
     c = 0x202F \<or> c = 0x205F \<or> c = 0x3000 \<or> c = 0xFEFF"

definition jsTrim :: "jsstring \<Rightarrow> jsstring" where
  "jsTrim s = rev (dropWhile isTrimUnit (rev (dropWhile isTrimUnit s)))"

text \<open>
  \<^verbatim>\<open>s.substring(a, b)\<close>: both indices are clamped to the length and swapped
  when \<open>a > b\<close>.
\<close>

definition jsSubstring :: "jsstring \<Rightarrow> nat \<Rightarrow> nat \<Rightarrow> jsstring" where
  "jsSubstring s a b =
     (let lo = min (min a b) (length s); hi = min (max a b) (length s)
      in take (hi - lo) (drop lo s))"

text \<open>\<^verbatim>\<open>s.indexOf(p)\<close>: the first position at which \<open>p\<close> occurs, \<open>None\<close> for -1.\<close>

fun jsIndexOf :: "jsstring \<Rightarrow> jsstring \<Rightarrow> nat option" where
  "jsIndexOf [] p = (if p = [] then Some 0 else None)"
| "jsIndexOf (x # xs) p =
     (if take (length p) (x # xs) = p then Some 0
      else map_option Suc (jsIndexOf xs p))"

section \<open>Content script: configuration and data\<close>

text \<open>The \<^verbatim>\<open>CONFIG\<close> object of the content script.\<close>

definition SELECTION_TIMEOUT :: int where
  "SELECTION_TIMEOUT = 5000"

definition MIN_TEXT_LENGTH :: nat where
  "MIN_TEXT_LENGTH = 3"

definition MAX_TEXT_LENGTH :: nat where
  "MAX_TEXT_LENGTH = 10000"

definition CONTEXT_LENGTH :: nat where
  "CONTEXT_LENGTH = 100"

text \<open>
  What the handlers read of a DOM element. \<open>layout\<close> is the pair read by
  \<^verbatim>\<open>isElementVisible\<close> (bounding rectangle and computed style); \<open>None\<close> stands
  for a call that throws.
\<close>

record layout =
  rectWidth :: real
  rectHeight :: real
  styleVisibility :: jsstring
  styleDisplay :: jsstring
  styleOpacity :: jsstring

record element =
  tagName :: jsstring
  src :: jsstring
  alt :: jsstring
  title :: jsstring
  naturalWidth :: nat
  naturalHeight :: nat
  displayWidth :: nat
  displayHeight :: nat
  className :: jsstring
  elementId :: jsstring
  elementLayout :: "layout option"

text \<open>
  The \<^verbatim>\<open>Selection\<close> object returned by \<^verbatim>\<open>window.getSelection()\<close>, with what
  \<^verbatim>\<open>extractDetailedSelection\<close> reads of its first range: the text content of the
  common ancestor container (as \<^verbatim>\<open>getElementTextContent\<close> returns it) and the
  element holding it (\<open>None\<close> for a text node without a parent).
\<close>

record dom_selection =
  selString :: jsstring
  rangeCount :: nat
  containerText :: jsstring
  containerElement :: "element option"

text \<open>
  The environment of one handler run: the clock, the page address, the page's
  selection, the visibility flag and \<^verbatim>\<open>document.querySelector\<close> (\<open>None\<close> for
  no match or an invalid selector).
\<close>

record env =
  now :: int
  href :: jsstring
  getSelection :: "dom_selection option"
  hidden :: bool
  querySelector :: "jsstring \<Rightarrow> element option"

text \<open>The object built by \<^verbatim>\<open>extractDetailedSelection\<close>; \<open>None\<close> stands for \<^verbatim>\<open>{}\<close>.\<close>

record selection_data =
  contextBefore :: jsstring
  contextAfter :: jsstring
  fullContext :: "jsstring option"
  elementType :: jsstring
  elementClass :: jsstring
  elementIdent :: jsstring
  isVisible :: bool

text \<open>The object built by \<^verbatim>\<open>extractImageData\<close>.\<close>

record image_data =
  img_url :: jsstring
  img_alt :: jsstring
  img_title :: jsstring
  img_width :: nat
  img_height :: nat
  img_displayWidth :: nat
  img_displayHeight :: nat
  img_className :: jsstring
  img_id :: jsstring
  img_isVisible :: bool
  img_timestamp :: int

text \<open>
  The selection objects held in \<^verbatim>\<open>selectedContent\<close> and \<^verbatim>\<open>lastSelection\<close>.
  The constructor is the \<^verbatim>\<open>type\<close> key. The script compares two of them with
  \<^verbatim>\<open>===\<close>, which is identity of objects: every object built by a handler gets a
  fresh \<open>oid\<close>, and \<open>sameObject\<close> compares it.
\<close>

datatype content =
    TextContent (oid: nat) (selText: jsstring) (selectionData: "selection_data option")
      (timestamp: int) (url: jsstring)
  | ImageContent (oid: nat) (imageData: "image_data option")
      (timestamp: int) (url: jsstring)

fun isText :: "content \<Rightarrow> bool" where
  "isText (TextContent _ _ _ _ _) = True"
| "isText (ImageContent _ _ _ _) = False"

fun isImage :: "content \<Rightarrow> bool" where
  "isImage (TextContent _ _ _ _ _) = False"
| "isImage (ImageContent _ _ _ _) = True"

definition sameObject :: "content option \<Rightarrow> content option \<Rightarrow> bool" where
  "sameObject a b =
     (case (a, b) of
        (None, None) \<Rightarrow> True
      | (Some x, Some y) \<Rightarrow> oid x = oid y
      | _ \<Rightarrow> False)"

text \<open>The module-level variables of the content script.\<close>

record tracker =
  selectedContent :: "content option"
  lastSelection :: "content option"
  selectedImage :: "(element \<times> int) option"
  isInitialized :: bool
  currentUrl :: jsstring
  nextOid :: nat

section \<open>Content script: helpers\<close>

text \<open>\<^verbatim>\<open>isElementVisible\<close>; the \<^verbatim>\<open>catch\<close> branch returns false.\<close>

definition isElementVisible :: "element option \<Rightarrow> bool" where
  "isElementVisible el =
     (case el of
        None \<Rightarrow> False
      | Some e \<Rightarrow>
          (case elementLayout e of
             None \<Rightarrow> False
           | Some l \<Rightarrow>
               rectWidth l > 0 \<and> rectHeight l > 0 \<and>
               styleVisibility l \<noteq> js ''hidden'' \<and>
               styleDisplay l \<noteq> js ''none'' \<and>
               styleOpacity l \<noteq> js ''0''))"

text \<open>\<^verbatim>\<open>isValidImage\<close>, check by check; \<^verbatim>\<open>minSize\<close> is the local constant 50.\<close>

definition minSize :: nat where
  "minSize = 50"

definition isValidImage :: "element option \<Rightarrow> bool" where
  "isValidImage imageElement =
     (case imageElement of
        None \<Rightarrow> False
      | Some e \<Rightarrow>
          if tagName e \<noteq> js ''IMG'' then False
          else if src e = [] then False
          else if naturalWidth e < minSize \<or> naturalHeight e < minSize then False
          else if \<not> isElementVisible (Some e) then False
          else True)"

text \<open>
  \<^verbatim>\<open>extractImageData\<close>: \<open>None\<close> is the \<^verbatim>\<open>null\<close> of the \<^verbatim>\<open>catch\<close> branch, taken
  when the element is not a valid image. \<^verbatim>\<open>a || b\<close> on numbers yields \<open>b\<close> when
  \<open>a\<close> is 0. The \<^verbatim>\<open>parentContext\<close> key (tag, class and text of the parent
  element) is DOM data that no handler reads; it is left out.
\<close>

definition extractImageData :: "env \<Rightarrow> element option \<Rightarrow> image_data option" where
  "extractImageData ev imageElement =
     (if \<not> isValidImage imageElement then None
      else case imageElement of
        None \<Rightarrow> None
      | Some e \<Rightarrow>
          Some \<lparr> img_url = src e, img_alt = alt e, img_title = title e,
                 img_width = (if naturalWidth e \<noteq> 0 then naturalWidth e else displayWidth e),
                 img_height = (if naturalHeight e \<noteq> 0 then naturalHeight e else displayHeight e),
                 img_displayWidth = displayWidth e, img_displayHeight = displayHeight e,
                 img_className = className e, img_id = elementId e,
                 img_isVisible = isElementVisible (Some e),
                 img_timestamp = now ev \<rparr>)"

text \<open>
  \<^verbatim>\<open>extractContext\<close>: up to \<open>CONTEXT_LENGTH\<close> code units on each side of the
  first occurrence of the selected text in the container's text, trimmed.
  \<^verbatim>\<open>Math.max(0, startIndex - CONTEXT_LENGTH)\<close> is the subtraction of naturals.
\<close>

definition extractContext :: "jsstring \<Rightarrow> jsstring \<Rightarrow> jsstring \<times> jsstring \<times> jsstring option" where
  "extractContext containerTxt selectedText =
     (case jsIndexOf containerTxt selectedText of
        None \<Rightarrow> ([], [], None)
      | Some startIndex \<Rightarrow>
          (jsTrim (jsSubstring containerTxt (startIndex - CONTEXT_LENGTH) startIndex),
           jsTrim (jsSubstring containerTxt (startIndex + length selectedText)
                     (startIndex + length selectedText + CONTEXT_LENGTH)),
           Some containerTxt))"

text \<open>\<^verbatim>\<open>toLowerCase\<close> on a tag name, whose letters are ASCII.\<close>

definition jsToLowerCase :: "jsstring \<Rightarrow> jsstring" where
  "jsToLowerCase s = map (\<lambda>c. if 0x41 \<le> c \<and> c \<le> 0x5A then c + 0x20 else c) s"

text \<open>
  \<^verbatim>\<open>extractDetailedSelection\<close>: \<^verbatim>\<open>{}\<close> without a range, else the context and
  the element information. The position, viewport and cloned range of the source
  object are DOM values that no handler reads; they are left out.
\<close>

definition extractDetailedSelection :: "dom_selection \<Rightarrow> jsstring \<Rightarrow> selection_data option" where
  "extractDetailedSelection selection selectedText =
     (if rangeCount selection = 0 then None
      else
        (case extractContext (containerText selection) selectedText of
           (before, after, full) \<Rightarrow>
             Some \<lparr> contextBefore = before, contextAfter = after, fullContext = full,
                    elementType = (case containerElement selection of
                                     None \<Rightarrow> js ''unknown''
                                   | Some e \<Rightarrow> if tagName e = [] then js ''unknown''
                                              else jsToLowerCase (tagName e)),
                    elementClass = (case containerElement selection of
                                      None \<Rightarrow> [] | Some e \<Rightarrow> className e),
                    elementIdent = (case containerElement selection of
                                      None \<Rightarrow> [] | Some e \<Rightarrow> elementId e),
                    isVisible = isElementVisible (containerElement selection) \<rparr>))"

section \<open>Content script: messages and effects\<close>

text \<open>The object returned by \<^verbatim>\<open>extractSelectedText\<close>.\<close>

record extracted_text =
  ext_text :: jsstring
  ext_data :: "selection_data option"
  ext_url :: jsstring
  ext_timestamp :: int

text \<open>
  The messages \<^verbatim>\<open>handleMessage\<close> switches on, by their \<^verbatim>\<open>type\<close>; the argument
  is \<^verbatim>\<open>message.data\<close> where the handler reads it (\<open>None\<close> when absent).
\<close>

datatype message =
    GET_SELECTED_CONTENT
  | EXTRACT_TEXT
  | EXTRACT_IMAGE "jsstring option"
  | SHOW_OVERLAY "jsstring option option"
  | CLEAR_SELECTION
  | PING
  | OtherType jsstring

text \<open>The objects passed to \<^verbatim>\<open>sendResponse\<close>, one constructor for each set of keys.\<close>

datatype response =
    ContentResponse (success: bool) (content: "content option")
  | TextResponse (success: bool) (extracted: "extracted_text option")
  | ImageResponse (success: bool) (image: "image_data option")
  | PlainResponse (success: bool)
  | StatusResponse (success: bool) (status: jsstring)
  | ErrorResponse (success: bool) (error: jsstring)

text \<open>
  What a handler does besides updating the variables: the messages sent to the
  background script, the response passed to \<^verbatim>\<open>sendResponse\<close>, the overlay shown
  and the page selection cleared.
\<close>

datatype effect =
    Notify content
  | OpenPopup content
  | Respond response
  | ShowOverlay jsstring
  | RemoveAllRanges

section \<open>Content script: handlers\<close>

text \<open>\<^verbatim>\<open>notifySelectionChange\<close>: one message to the background script; a failure to
  deliver it is caught and logged.\<close>

definition notifySelectionChange :: "content \<Rightarrow> effect list" where
  "notifySelectionChange c = [Notify c]"

text \<open>
  \<^verbatim>\<open>handleSelectionChange\<close>. Without a selection object the first statement
  throws and the \<^verbatim>\<open>catch\<close> leaves the variables as they are.
\<close>

definition handleSelectionChange :: "env \<Rightarrow> tracker \<Rightarrow> tracker \<times> effect list" where
  "handleSelectionChange ev s =
     (case getSelection ev of
        None \<Rightarrow> (s, [])
      | Some selection \<Rightarrow>
          let selectedText = jsTrim (selString selection) in
          if selectedText \<noteq> [] \<and> length selectedText \<ge> MIN_TEXT_LENGTH then
            let processedText = jsSubstring selectedText 0 MAX_TEXT_LENGTH;
                selectionData = extractDetailedSelection selection processedText;
                c = TextContent (nextOid s) processedText selectionData (now ev) (href ev)
            in (s\<lparr>selectedContent := Some c, lastSelection := Some c,
                   nextOid := Suc (nextOid s)\<rparr>,
                notifySelectionChange c)
          else if (case lastSelection s of
                     None \<Rightarrow> False
                   | Some l \<Rightarrow> now ev - timestamp l < SELECTION_TIMEOUT) then
            (s\<lparr>selectedContent := lastSelection s\<rparr>, [])
          else
            (s\<lparr>selectedContent :=
                   (case selectedContent s of
                      None \<Rightarrow> None
                    | Some c \<Rightarrow> if isText c then None else Some c),
                lastSelection := None\<rparr>, []))"

text \<open>
  The periodic cleanup that \<^verbatim>\<open>monitorSelectionChanges\<close> installs with
  \<^verbatim>\<open>setInterval\<close>, run every 1000 ms.
\<close>

definition CLEANUP_INTERVAL :: int where
  "CLEANUP_INTERVAL = 1000"

definition cleanupOldSelections :: "env \<Rightarrow> tracker \<Rightarrow> tracker" where
  "cleanupOldSelections ev s =
     (case lastSelection s of
        None \<Rightarrow> s
      | Some l \<Rightarrow>
          if now ev - timestamp l > SELECTION_TIMEOUT then
            s\<lparr>selectedContent :=
                 (if sameObject (selectedContent s) (lastSelection s) then None
                  else selectedContent s),
              lastSelection := None\<rparr>
          else s)"

text \<open>\<^verbatim>\<open>initializeSelectionState\<close>.\<close>

definition initializeSelectionState :: "env \<Rightarrow> tracker \<Rightarrow> tracker \<times> effect list" where
  "initializeSelectionState ev s =
     (case getSelection ev of
        None \<Rightarrow> (s, [])
      | Some selection \<Rightarrow>
          if jsTrim (selString selection) \<noteq> [] then handleSelectionChange ev s
          else (s, []))"

text \<open>
  \<^verbatim>\<open>initializeContentScript\<close>: the listeners and timers it installs are the
  events of \<open>step\<close> below.
\<close>

definition initializeContentScript :: "env \<Rightarrow> tracker \<Rightarrow> tracker \<times> effect list" where
  "initializeContentScript ev s =
     (if isInitialized s then (s, [])
      else case initializeSelectionState ev s of
             (s', fx) \<Rightarrow> (s'\<lparr>isInitialized := True\<rparr>, fx))"

text \<open>\<^verbatim>\<open>handleImageClick\<close>.\<close>

definition handleImageClick :: "env \<Rightarrow> element \<Rightarrow> tracker \<Rightarrow> tracker" where
  "handleImageClick ev target s =
     (if tagName target = js ''IMG'' \<and> isValidImage (Some target) then
        s\<lparr>selectedImage := Some (target, now ev)\<rparr>
      else s)"

text \<open>
  \<^verbatim>\<open>handleContextMenu\<close>. The object is built as
  \<^verbatim>\<open>{type: 'image', ...imageData, timestamp: Date.now(), url: window.location.href}\<close>:
  the later keys replace the \<^verbatim>\<open>timestamp\<close> and \<^verbatim>\<open>url\<close> keys of the image data.
\<close>

definition handleContextMenu :: "env \<Rightarrow> element \<Rightarrow> tracker \<Rightarrow> tracker \<times> effect list" where
  "handleContextMenu ev target s =
     (if tagName target = js ''IMG'' \<and> isValidImage (Some target) then
        let imgData = map_option (\<lambda>d. d\<lparr>img_url := href ev, img_timestamp := now ev\<rparr>)
                        (extractImageData ev (Some target));
            c = ImageContent (nextOid s) imgData (now ev) (href ev)
        in (s\<lparr>selectedContent := Some c, nextOid := Suc (nextOid s)\<rparr>,
            notifySelectionChange c)
      else (s, []))"

text \<open>\<^verbatim>\<open>handleKeyboardShortcuts\<close>, given the three keys of the event it reads.\<close>

definition handleKeyboardShortcuts :: "bool \<Rightarrow> bool \<Rightarrow> jsstring \<Rightarrow> tracker \<Rightarrow> effect list" where
  "handleKeyboardShortcuts ctrlKey shiftKey key s =
     (if ctrlKey \<and> shiftKey \<and> key = js ''A'' then
        (case selectedContent s of None \<Rightarrow> [] | Some c \<Rightarrow> [OpenPopup c])
      else [])"

text \<open>\<^verbatim>\<open>handleVisibilityChange\<close>.\<close>

definition handleVisibilityChange :: "env \<Rightarrow> tracker \<Rightarrow> tracker" where
  "handleVisibilityChange ev s =
     (if hidden ev then
        (case selectedContent s of
           None \<Rightarrow> s
         | Some c \<Rightarrow> if isImage c then s\<lparr>selectedContent := None\<rparr> else s)
      else s)"

text \<open>\<^verbatim>\<open>clearSelection\<close>.\<close>

definition clearSelection :: "env \<Rightarrow> tracker \<Rightarrow> tracker \<times> effect list" where
  "clearSelection ev s =
     (s\<lparr>selectedContent := None, lastSelection := None, selectedImage := None\<rparr>,
      case getSelection ev of None \<Rightarrow> [] | Some _ \<Rightarrow> [RemoveAllRanges])"

text \<open>\<^verbatim>\<open>extractSelectedText\<close>; every \<^verbatim>\<open>null\<close> of the source is \<open>None\<close>.\<close>

definition extractSelectedText :: "env \<Rightarrow> extracted_text option" where
  "extractSelectedText ev =
     (case getSelection ev of
        None \<Rightarrow> None
      | Some selection \<Rightarrow>
          if rangeCount selection = 0 then None
          else
            let selectedText = jsTrim (selString selection) in
            if selectedText = [] \<or> length selectedText < MIN_TEXT_LENGTH then None
            else
              Some \<lparr> ext_text = jsSubstring selectedText 0 MAX_TEXT_LENGTH,
                     ext_data = extractDetailedSelection selection selectedText,
                     ext_url = href ev, ext_timestamp = now ev \<rparr>)"

text \<open>\<^verbatim>\<open>extractSelectedImage\<close>; an empty selector string is falsy.\<close>

definition extractSelectedImage :: "env \<Rightarrow> jsstring option \<Rightarrow> tracker \<Rightarrow> image_data option" where
  "extractSelectedImage ev imageSelector s =
     (case (case imageSelector of None \<Rightarrow> None | Some q \<Rightarrow> if q = [] then None else Some q) of
        Some q \<Rightarrow> extractImageData ev (querySelector ev q)
      | None \<Rightarrow>
          (case selectedImage s of
             Some (e, _) \<Rightarrow> extractImageData ev (Some e)
           | None \<Rightarrow> None))"

text \<open>
  \<^verbatim>\<open>showInlineOverlay\<close>: the argument is \<^verbatim>\<open>message.data\<close> (\<open>None\<close> when the
  message has none, and then reading \<^verbatim>\<open>data.message\<close> throws into the \<^verbatim>\<open>catch\<close>),
  holding its \<^verbatim>\<open>message\<close> key.
\<close>

definition showInlineOverlay :: "jsstring option option \<Rightarrow> effect list" where
  "showInlineOverlay d =
     (case d of
        None \<Rightarrow> []
      | Some m \<Rightarrow>
          [ShowOverlay (case m of
                          None \<Rightarrow> js ''AURA processing complete''
                        | Some t \<Rightarrow> if t = [] then js ''AURA processing complete'' else t)])"

text \<open>\<^verbatim>\<open>handleMessage\<close>, case by case.\<close>

definition handleMessage :: "env \<Rightarrow> message \<Rightarrow> tracker \<Rightarrow> tracker \<times> effect list" where
  "handleMessage ev m s =
     (case m of
        GET_SELECTED_CONTENT \<Rightarrow>
          (s, [Respond (ContentResponse True (selectedContent s))])
      | EXTRACT_TEXT \<Rightarrow>
          (s, [Respond (TextResponse True (extractSelectedText ev))])
      | EXTRACT_IMAGE d \<Rightarrow>
          (s, [Respond (ImageResponse True (extractSelectedImage ev d s))])
      | SHOW_OVERLAY d \<Rightarrow>
          (s, showInlineOverlay d @ [Respond (PlainResponse True)])
      | CLEAR_SELECTION \<Rightarrow>
          (case clearSelection ev s of
             (s', fx) \<Rightarrow> (s', fx @ [Respond (PlainResponse True)]))
      | PING \<Rightarrow>
          (s, [Respond (StatusResponse True (js ''ready''))])
      | OtherType _ \<Rightarrow>
          (s, [Respond (ErrorResponse False (js ''Unknown message type''))]))"

text \<open>
  The \<^verbatim>\<open>MutationObserver\<close> that watches for a changed page address and clears
  the selection on navigation. The re-initialisation it schedules is the event
  \<open>Initialize\<close> below, which does nothing once the script is initialised.
\<close>

definition urlObserver :: "env \<Rightarrow> tracker \<Rightarrow> tracker \<times> effect list" where
  "urlObserver ev s =
     (if href ev \<noteq> currentUrl s then clearSelection ev (s\<lparr>currentUrl := href ev\<rparr>)
      else (s, []))"

section \<open>Content script: the event loop\<close>

text \<open>
  The script is single-threaded: each registered listener or timer callback runs
  to completion on one event. \<open>step\<close> dispatches an event to its handler as
  \<^verbatim>\<open>setupEventListeners\<close>, \<^verbatim>\<open>monitorSelectionChanges\<close> and the observer register
  them.
\<close>

datatype event =
    Initialize
  | SelectionChange
  | Click element
  | ContextMenu element
  | KeyDown bool bool jsstring
  | VisibilityChange
  | Message message
  | CleanupTick
  | DomMutation

definition step :: "env \<times> event \<Rightarrow> tracker \<Rightarrow> tracker \<times> effect list" where
  "step x s =
     (case x of (ev, e) \<Rightarrow>
        (case e of
           Initialize \<Rightarrow> initializeContentScript ev s
         | SelectionChange \<Rightarrow> handleSelectionChange ev s
         | Click target \<Rightarrow> (handleImageClick ev target s, [])
         | ContextMenu target \<Rightarrow> handleContextMenu ev target s
         | KeyDown c sh k \<Rightarrow> (s, handleKeyboardShortcuts c sh k s)
         | VisibilityChange \<Rightarrow> (handleVisibilityChange ev s, [])
         | Message m \<Rightarrow> handleMessage ev m s
         | CleanupTick \<Rightarrow> (cleanupOldSelections ev s, [])
         | DomMutation \<Rightarrow> urlObserver ev s))"

text \<open>A run of events, oldest first, with the effects in order.\<close>

fun run :: "(env \<times> event) list \<Rightarrow> tracker \<Rightarrow> tracker \<times> effect list" where
  "run [] s = (s, [])"
| "run (x # xs) s =
     (case step x s of
        (s', fx) \<Rightarrow> (case run xs s' of (s'', fx') \<Rightarrow> (s'', fx @ fx')))"

text \<open>The variables when the script is loaded on a page.\<close>

definition initialTracker :: "jsstring \<Rightarrow> tracker" where
  "initialTracker u =
     \<lparr> selectedContent = None, lastSelection = None, selectedImage = None,
       isInitialized = False, currentUrl = u, nextOid = 0 \<rparr>"

text \<open>
  \<^verbatim>\<open>getCurrentSelection\<close> of the specification is the \<^verbatim>\<open>GET_SELECTED_CONTENT\<close>
  query: the \<^verbatim>\<open>content\<close> key of the response it is answered with.
\<close>

definition getCurrentSelection :: "env \<Rightarrow> tracker \<Rightarrow> content option" where
  "getCurrentSelection ev s =
     (case snd (handleMessage ev GET_SELECTED_CONTENT s) of
        [Respond r] \<Rightarrow> content r
      | _ \<Rightarrow> None)"

section \<open>Background service worker\<close>

text \<open>The \<^verbatim>\<open>modelStatus\<close> variable.\<close>

record model_status =
  available :: bool
  downloading :: bool
  statusError :: "jsstring option"

text \<open>
  Modelled from the spec: the host's persistent key-value store
  (\<^verbatim>\<open>chrome.storage.local\<close>), an external service that is not code of this
  repository. It maps keys to values; a write stores every item of the given
  object, or is rejected as a whole (quota exceeded); a read returns the stored
  items among the requested keys. Whether the host accepts a call is an input of
  the handler: \<open>None\<close>, or the message of the error it rejects with.
\<close>

type_synonym 'v items = "jsstring \<rightharpoonup> 'v"

datatype 'v storage_keys =
    AllKeys
  | OneKey jsstring
  | KeyList "jsstring list"
  | KeyDefaults "'v items"

definition storageGet :: "'v items \<Rightarrow> 'v storage_keys \<Rightarrow> 'v items" where
  "storageGet st keys =
     (case keys of
        AllKeys \<Rightarrow> st
      | OneKey k \<Rightarrow> st |` {k}
      | KeyList ks \<Rightarrow> st |` set ks
      | KeyDefaults d \<Rightarrow> d ++ (st |` dom d))"

definition storageSet :: "'v items \<Rightarrow> 'v items \<Rightarrow> 'v items" where
  "storageSet st data = st ++ data"

text \<open>Whether a read for \<open>keys\<close> asks for the key \<open>k\<close>.\<close>

definition asksFor :: "'v storage_keys \<Rightarrow> jsstring \<Rightarrow> bool" where
  "asksFor keys k =
     (case keys of
        AllKeys \<Rightarrow> True
      | OneKey k' \<Rightarrow> k' = k
      | KeyList ks \<Rightarrow> k \<in> set ks
      | KeyDefaults d \<Rightarrow> k \<in> dom d)"

record 'v background =
  modelStatus :: model_status
  storage :: "'v items"

text \<open>The messages the listener switches on, with \<^verbatim>\<open>message.data\<close>.\<close>

datatype ('v, 'p) bg_message =
    CONTENT_SELECTED 'p
  | CHECK_MODEL_STATUS
  | GET_STORAGE "'v storage_keys"
  | SET_STORAGE "'v items"
  | PROCESS_CONTENT 'p
  | OtherRequest jsstring

text \<open>The objects passed to \<^verbatim>\<open>sendResponse\<close>.\<close>

datatype 'v bg_response =
    ModelStatusReply (bg_success: bool) (bg_status: model_status)
  | DataReply (bg_success: bool) (bg_data: "'v items")
  | PlainReply (bg_success: bool)
  | ErrorReply (bg_success: bool) (bg_error: jsstring)

text \<open>\<^verbatim>\<open>handleGetStorage\<close>: the result of the store, as it is, under \<^verbatim>\<open>data\<close>.\<close>

definition handleGetStorage ::
  "jsstring option \<Rightarrow> 'v storage_keys \<Rightarrow> 'v background \<Rightarrow> 'v bg_response" where
  "handleGetStorage rejected keys b =
     (case rejected of
        None \<Rightarrow> DataReply True (storageGet (storage b) keys)
      | Some msg \<Rightarrow> ErrorReply False msg)"

text \<open>\<^verbatim>\<open>handleSetStorage\<close>: the request's data, as it is, to the store.\<close>

definition handleSetStorage ::
  "jsstring option \<Rightarrow> 'v items \<Rightarrow> 'v background \<Rightarrow> 'v background \<times> 'v bg_response" where
  "handleSetStorage rejected d b =
     (case rejected of
        None \<Rightarrow> (b\<lparr>storage := storageSet (storage b) d\<rparr>, PlainReply True)
      | Some msg \<Rightarrow> (b, ErrorReply False msg))"

text \<open>
  \<^verbatim>\<open>handleProcessContent\<close>: the placeholder logs the request and answers that
  processing is not implemented.
\<close>

definition handleProcessContent :: "'p \<Rightarrow> 'v bg_response" where
  "handleProcessContent d =
     ErrorReply False (js ''Content processing will be implemented in future tasks'')"

text \<open>
  The \<^verbatim>\<open>chrome.runtime.onMessage\<close> listener of the background script.
  \<^verbatim>\<open>handleContentSelected\<close> only logs and sends no response.
\<close>

definition onMessage ::
  "jsstring option \<Rightarrow> ('v, 'p) bg_message \<Rightarrow> 'v background
     \<Rightarrow> 'v background \<times> 'v bg_response list" where
  "onMessage rejected m b =
     (case m of
        CONTENT_SELECTED d \<Rightarrow> (b, [])
      | CHECK_MODEL_STATUS \<Rightarrow> (b, [ModelStatusReply True (modelStatus b)])
      | GET_STORAGE keys \<Rightarrow> (b, [handleGetStorage rejected keys b])
      | SET_STORAGE d \<Rightarrow>
          (case handleSetStorage rejected d b of (b', r) \<Rightarrow> (b', [r]))
      | PROCESS_CONTENT d \<Rightarrow> (b, [handleProcessContent d])
      | OtherRequest t \<Rightarrow> (b, [ErrorReply False (js ''Unknown message type'')]))"

section \<open>Popup\<close>

text \<open>
  The popup's variables and the part of the page its functions write: the
  \<^verbatim>\<open>disabled\<close> flag of the four action buttons, the \<^verbatim>\<open>hidden\<close> class of the
  loading indicator and of the error display, and their texts.
\<close>

record popup =
  currentContent :: "content option"
  isProcessing :: bool
  summarizeBtnDisabled :: bool
  simplifyBtnDisabled :: bool
  describeBtnDisabled :: bool
  translateBtnDisabled :: bool
  loadingHidden :: bool
  loadingText :: jsstring
  errorHidden :: bool
  errorMessage :: jsstring

text \<open>\<^verbatim>\<open>disableActionButtons\<close>.\<close>

definition disableActionButtons :: "popup \<Rightarrow> popup" where
  "disableActionButtons p =
     p\<lparr>summarizeBtnDisabled := True, simplifyBtnDisabled := True,
       describeBtnDisabled := True, translateBtnDisabled := True\<rparr>"

text \<open>\<^verbatim>\<open>enableActionButtons\<close>, given the \<^verbatim>\<open>type\<close> of the content.\<close>

definition enableActionButtons :: "content \<Rightarrow> popup \<Rightarrow> popup" where
  "enableActionButtons c p =
     (let p' = disableActionButtons p in
      if isText c then
        p'\<lparr>summarizeBtnDisabled := False, simplifyBtnDisabled := False,
           translateBtnDisabled := False\<rparr>
      else if isImage c then
        p'\<lparr>describeBtnDisabled := False, translateBtnDisabled := False\<rparr>
      else p')"

text \<open>\<^verbatim>\<open>showLoading\<close>.\<close>

definition showLoading :: "jsstring \<Rightarrow> popup \<Rightarrow> popup" where
  "showLoading message p =
     disableActionButtons
       (p\<lparr>isProcessing := True, loadingHidden := False, loadingText := message,
          errorHidden := True\<rparr>)"

text \<open>\<^verbatim>\<open>hideLoading\<close>.\<close>

definition hideLoading :: "popup \<Rightarrow> popup" where
  "hideLoading p =
     (let p' = p\<lparr>isProcessing := False, loadingHidden := True\<rparr> in
      case currentContent p' of
        None \<Rightarrow> p'
      | Some c \<Rightarrow> enableActionButtons c p')"

text \<open>\<^verbatim>\<open>showError\<close>.\<close>

definition showError :: "jsstring \<Rightarrow> popup \<Rightarrow> popup" where
  "showError message p =
     hideLoading (p\<lparr>errorMessage := message, errorHidden := False\<rparr>)"

text \<open>
  The external AI capabilities a handler of the popup can call. A handler returns
  the new state with the calls it issues.
\<close>

datatype capability = SummarizerCall | RewriterCall | PromptCall | TranslatorCall

text \<open>
  The four action handlers are placeholders: each logs the click and shows an
  error; none calls \<^verbatim>\<open>showLoading\<close> or an AI capability.
\<close>

definition handleSummarize :: "popup \<Rightarrow> popup \<times> capability list" where
  "handleSummarize p =
     (showError (js ''Summarization feature will be implemented in the next task.'') p, [])"

definition handleSimplify :: "popup \<Rightarrow> popup \<times> capability list" where
  "handleSimplify p =
     (showError (js ''Text simplification feature will be implemented in a future task.'') p,
      [])"

definition handleDescribe :: "popup \<Rightarrow> popup \<times> capability list" where
  "handleDescribe p =
     (showError (js ''Image description feature will be implemented in a future task.'') p,
      [])"

definition handleTranslate :: "popup \<Rightarrow> popup \<times> capability list" where
  "handleTranslate p =
     (showError (js ''Translation feature will be implemented in a future task.'') p, [])"

text \<open>
  The click listeners that \<^verbatim>\<open>setupEventListeners\<close> registers on the four action
  buttons. A click on a disabled button dispatches no event, so its handler does
  not run.
\<close>

datatype action = Summarize | Simplify | Describe | Translate

definition actionDisabled :: "action \<Rightarrow> popup \<Rightarrow> bool" where
  "actionDisabled a p =
     (case a of
        Summarize \<Rightarrow> summarizeBtnDisabled p
      | Simplify \<Rightarrow> simplifyBtnDisabled p
      | Describe \<Rightarrow> describeBtnDisabled p
      | Translate \<Rightarrow> translateBtnDisabled p)"

definition clickAction :: "action \<Rightarrow> popup \<Rightarrow> popup \<times> capability list" where
  "clickAction a p =
     (if actionDisabled a p then (p, [])
      else case a of
        Summarize \<Rightarrow> handleSummarize p
      | Simplify \<Rightarrow> handleSimplify p
      | Describe \<Rightarrow> handleDescribe p
      | Translate \<Rightarrow> handleTranslate p)"

text \<open>The message each placeholder shows.\<close>

definition actionError :: "action \<Rightarrow> jsstring" where
  "actionError a =
     (case a of
        Summarize \<Rightarrow> js ''Summarization feature will be implemented in the next task.''
      | Simplify \<Rightarrow> js ''Text simplification feature will be implemented in a future task.''
      | Describe \<Rightarrow> js ''Image description feature will be implemented in a future task.''
      | Translate \<Rightarrow> js ''Translation feature will be implemented in a future task.'')"

text \<open>
  The states \<^verbatim>\<open>hideLoading\<close> and \<^verbatim>\<open>showError\<close> pass through, one after each
  statement in the order of the source (\<^verbatim>\<open>enableActionButtons\<close> counted as its
  reset and its enabling); the last one is the state the function returns.
\<close>

definition hideLoadingStates :: "popup \<Rightarrow> popup list" where
  "hideLoadingStates p =
     (let p1 = p\<lparr>isProcessing := False\<rparr>;
          p2 = p1\<lparr>loadingHidden := True\<rparr>
      in [p1, p2] @
         (case currentContent p2 of
            None \<Rightarrow> []
          | Some c \<Rightarrow> [disableActionButtons p2, enableActionButtons c p2]))"

definition showErrorStates :: "jsstring \<Rightarrow> popup \<Rightarrow> popup list" where
  "showErrorStates message p =
     (let p1 = p\<lparr>errorMessage := message\<rparr>;
          p2 = p1\<lparr>errorHidden := False\<rparr>
      in [p1, p2] @ hideLoadingStates p2)"

text \<open>
  All four action controls are disabled; and the controls enabled are exactly
  those \<^verbatim>\<open>enableActionButtons\<close> gives a content of this type.
\<close>

definition allDisabled :: "popup \<Rightarrow> bool" where
  "allDisabled p \<longleftrightarrow>
     summarizeBtnDisabled p \<and> simplifyBtnDisabled p \<and> describeBtnDisabled p \<and>
     translateBtnDisabled p"

definition enabledFor :: "content \<Rightarrow> popup \<Rightarrow> bool" where
  "enabledFor c p \<longleftrightarrow>
     summarizeBtnDisabled p = (\<not> isText c) \<and> simplifyBtnDisabled p = (\<not> isText c) \<and>
     describeBtnDisabled p = (\<not> isImage c) \<and> \<not> translateBtnDisabled p"

section \<open>The response objects and the interface contract\<close>

text \<open>
  A response is the object literal the handler passes to \<^verbatim>\<open>sendResponse\<close>:
  \<open>responseObject\<close> lists its keys with their values, in the order of the source,
  and \<open>sentResponses\<close> collects the objects sent among the effects of a handler.
\<close>

datatype jsvalue =
    JBool bool
  | JString jsstring
  | JSelection "content option"
  | JText "extracted_text option"
  | JImage "image_data option"

type_synonym jsobject = "(string \<times> jsvalue) list"

definition responseObject :: "response \<Rightarrow> jsobject" where
  "responseObject r =
     (case r of
        ContentResponse b c \<Rightarrow> [(''success'', JBool b), (''content'', JSelection c)]
      | TextResponse b t \<Rightarrow> [(''success'', JBool b), (''text'', JText t)]
      | ImageResponse b i \<Rightarrow> [(''success'', JBool b), (''image'', JImage i)]
      | PlainResponse b \<Rightarrow> [(''success'', JBool b)]
      | StatusResponse b st \<Rightarrow> [(''success'', JBool b), (''status'', JString st)]
      | ErrorResponse b msg \<Rightarrow> [(''success'', JBool b), (''error'', JString msg)])"

definition sentResponses :: "effect list \<Rightarrow> jsobject list" where
  "sentResponses fx =
     concat (map (\<lambda>f. case f of Respond r \<Rightarrow> [responseObject r] | _ \<Rightarrow> []) fx)"

text \<open>
  The two query replies in the words of the specification's interface contract:
  \<open>{selection: Selection | none}\<close> and \<open>{ready: true}\<close>.
\<close>

definition contractSelectionReply :: "content option \<Rightarrow> jsobject" where
  "contractSelectionReply c = [(''selection'', JSelection c)]"

definition contractReadyReply :: jsobject where
  "contractReadyReply = [(''ready'', JBool True)]"

section \<open>The bound on the length of a text selection\<close>

text \<open>
  A held selection is within bounds when it is no text selection, or its text has
  at least \<open>MIN_TEXT_LENGTH\<close> and at most \<open>MAX_TEXT_LENGTH\<close> code units. The
  invariant asks it of both variables that hold a selection, since the grace
  branch copies \<^verbatim>\<open>lastSelection\<close> into \<^verbatim>\<open>selectedContent\<close>.
\<close>

definition withinBounds :: "content option \<Rightarrow> bool" where
  "withinBounds c =
     (case c of
        None \<Rightarrow> True
      | Some (TextContent _ t _ _ _) \<Rightarrow>
          MIN_TEXT_LENGTH \<le> length t \<and> length t \<le> MAX_TEXT_LENGTH
      | Some (ImageContent _ _ _ _) \<Rightarrow> True)"

definition textBounds :: "tracker \<Rightarrow> bool" where
  "textBounds s \<longleftrightarrow> withinBounds (selectedContent s) \<and> withinBounds (lastSelection s)"

section \<open>Qualifying text\<close>

text \<open>The page's selection passes the length test of \<^verbatim>\<open>handleSelectionChange\<close>.\<close>

definition qualifiesText :: "env \<Rightarrow> bool" where
  "qualifiesText ev =
     (case getSelection ev of
        None \<Rightarrow> False
      | Some sel \<Rightarrow> MIN_TEXT_LENGTH \<le> length (jsTrim (selString sel)))"

section \<open>Object identity in reachable states\<close>

text \<open>
  What the handlers maintain about the identity of the held objects: every held
  object was built before the next one to come, \<^verbatim>\<open>lastSelection\<close> holds text
  selections only, a current text selection is the object \<^verbatim>\<open>lastSelection\<close> refers
  to, and a current image selection was built after it. In such a state
  \<^verbatim>\<open>selectedContent === lastSelection\<close> holds exactly when the two are equal.
\<close>

definition wellFormed :: "tracker \<Rightarrow> bool" where
  "wellFormed s \<longleftrightarrow>
     (case lastSelection s of
        None \<Rightarrow> True
      | Some l \<Rightarrow> isText l \<and> oid l < nextOid s) \<and>
     (case selectedContent s of
        None \<Rightarrow> True
      | Some c \<Rightarrow>
          oid c < nextOid s \<and>
          (if isText c then lastSelection s = Some c
           else (case lastSelection s of None \<Rightarrow> True | Some l \<Rightarrow> oid l < oid c)))"

section \<open>Example inputs\<close>

definition pageUrl :: jsstring where
  "pageUrl = js ''https://example.org/article''"

text \<open>A paragraph element, and the page at time \<open>t\<close> with \<open>txt\<close> selected in it.\<close>

definition bodyText :: element where
  "bodyText =
     \<lparr> tagName = js ''P'', src = [], alt = [], title = [],
       naturalWidth = 0, naturalHeight = 0, displayWidth = 0, displayHeight = 0,
       className = [], elementId = [],
       elementLayout = Some \<lparr> rectWidth = 600, rectHeight = 80,
         styleVisibility = js ''visible'', styleDisplay = js ''block'',
         styleOpacity = js ''1'' \<rparr> \<rparr>"

definition pageAt :: "int \<Rightarrow> jsstring \<Rightarrow> env" where
  "pageAt t txt =
     \<lparr> now = t, href = pageUrl,
       getSelection = Some \<lparr> selString = txt, rangeCount = (if txt = [] then 0 else 1),
                              containerText = txt, containerElement = Some bodyText \<rparr>,
       hidden = False, querySelector = (\<lambda>_. None) \<rparr>"

text \<open>A visible 20 x 20 image and a visible 640 x 480 image.\<close>

definition tinyImage :: element where
  "tinyImage =
     \<lparr> tagName = js ''IMG'', src = js ''https://example.org/dot.png'', alt = [], title = [],
       naturalWidth = 20, naturalHeight = 20, displayWidth = 20, displayHeight = 20,
       className = [], elementId = [],
       elementLayout = Some \<lparr> rectWidth = 20, rectHeight = 20,
         styleVisibility = js ''visible'', styleDisplay = js ''inline'',
         styleOpacity = js ''1'' \<rparr> \<rparr>"

definition photo :: element where
  "photo =
     \<lparr> tagName = js ''IMG'', src = js ''https://example.org/photo.jpg'', alt = js ''A photo'',
       title = [], naturalWidth = 640, naturalHeight = 480, displayWidth = 320,
       displayHeight = 240, className = [], elementId = [],
       elementLayout = Some \<lparr> rectWidth = 320, rectHeight = 240,
         styleVisibility = js ''visible'', styleDisplay = js ''inline'',
         styleOpacity = js ''1'' \<rparr> \<rparr>"

text \<open>
  The selection object built when the text \<open>hello world\<close> is selected at time 0
  on a freshly loaded page, and the state after the user then clears the selection
  at time 1000: the grace branch keeps it.
\<close>

definition helloSelection :: content where
  "helloSelection =
     TextContent 0 (js ''hello world'')
       (extractDetailedSelection
          \<lparr> selString = js ''hello world'', rangeCount = 1,
            containerText = js ''hello world'', containerElement = Some bodyText \<rparr>
          (js ''hello world''))
       0 pageUrl"

definition graceState :: tracker where
  "graceState =
     fst (run [(pageAt 0 [], Initialize),
               (pageAt 0 (js ''hello world''), SelectionChange),
               (pageAt 1000 [], SelectionChange)]
            (initialTracker pageUrl))"

text \<open>
  The same text selected at time 0 and kept selected on the page, with the cleanup
  tick of time 6000.
\<close>

definition stillSelectedRun :: "(env \<times> event) list" where
  "stillSelectedRun =
     [(pageAt 0 [], Initialize),
      (pageAt 0 (js ''hello world''), SelectionChange),
      (pageAt 6000 (js ''hello world''), CleanupTick)]"

text \<open>
  A right-click on the photo at time 1000, after the text was selected at time 0,
  and the image selection it builds.
\<close>

definition imageRun :: "(env \<times> event) list" where
  "imageRun =
     [(pageAt 0 [], Initialize),
      (pageAt 0 (js ''hello world''), SelectionChange),
      (pageAt 1000 [], ContextMenu photo)]"

definition photoSelection :: content where
  "photoSelection =
     ImageContent 1
       (Some \<lparr> img_url = pageUrl, img_alt = js ''A photo'', img_title = [],
               img_width = 640, img_height = 480, img_displayWidth = 320,
               img_displayHeight = 240, img_className = [], img_id = [],
               img_isVisible = True, img_timestamp = 1000 \<rparr>)
       1000 pageUrl"

text \<open>The popup opened on the selected text, with the text controls enabled.\<close>

definition readyPopup :: popup where
  "readyPopup =
     \<lparr> currentContent = Some helloSelection, isProcessing = False,
       summarizeBtnDisabled = False, simplifyBtnDisabled = False,
       describeBtnDisabled = True, translateBtnDisabled = False,
       loadingHidden = True, loadingText = [], errorHidden = True, errorMessage = [] \<rparr>"

text \<open>A background state with an empty store of strings.\<close>

definition emptyBackground :: "jsstring background" where
  "emptyBackground =
     \<lparr> modelStatus = \<lparr> available = False, downloading = False, statusError = None \<rparr>,
       storage = Map.empty \<rparr>"

section \<open>Properties\<close>

subsection \<open>Queries of the Selection Tracker\<close>

text \<open>
  Claim C8. Answering a \<^verbatim>\<open>GET_SELECTED_CONTENT\<close> query is a pure read: in every
  tracker state the handler returns the state as it was (current selection, last
  selection, held image and all other variables), and its only effect is the one
  response, which carries the current selection.
\<close>

theorem getCurrentSelection_pure_read:
  "handleMessage ev GET_SELECTED_CONTENT s =
     (s, [Respond (ContentResponse True (selectedContent s))])
   \<and> fst (step (ev, Message GET_SELECTED_CONTENT) s) = s
   \<and> getCurrentSelection ev s = selectedContent s"
  by (simp add: handleMessage_def step_def getCurrentSelection_def)

text \<open>
  Claim C6, as the code has it. In every state, a get-selected-content query
  (\<^verbatim>\<open>GET_SELECTED_CONTENT\<close>) is answered with the one object
  \<^verbatim>\<open>{success: true, content: selectedContent}\<close>, whose \<^verbatim>\<open>content\<close> is the current
  selection or \<^verbatim>\<open>null\<close>, and a ping (\<^verbatim>\<open>PING\<close>) with the one object
  \<^verbatim>\<open>{success: true, status: 'ready'}\<close>.
\<close>

theorem query_response_shapes:
  "snd (handleMessage ev GET_SELECTED_CONTENT s) =
     [Respond (ContentResponse True (selectedContent s))]
   \<and> snd (handleMessage ev PING s) = [Respond (StatusResponse True (js ''ready''))]
   \<and> sentResponses (snd (handleMessage ev GET_SELECTED_CONTENT s)) =
       [[(''success'', JBool True), (''content'', JSelection (selectedContent s))]]
   \<and> sentResponses (snd (handleMessage ev PING s)) =
       [[(''success'', JBool True), (''status'', JString (js ''ready''))]]"
  by (simp add: handleMessage_def sentResponses_def responseObject_def)

text \<open>
  The shapes of the interface contract are not the objects sent: on the state
  \<open>graceState\<close> the answer to the get-selected-content query is not
  \<open>{selection: ...}\<close> and the answer to the ping is not \<open>{ready: true}\<close>.
\<close>

theorem query_response_shapes_counterexample:
  "sentResponses (snd (handleMessage (pageAt 2000 []) GET_SELECTED_CONTENT graceState)) \<noteq>
     [contractSelectionReply (selectedContent graceState)]
   \<and> sentResponses (snd (handleMessage (pageAt 2000 []) PING graceState)) \<noteq>
     [contractReadyReply]"
  by (simp add: handleMessage_def sentResponses_def responseObject_def
      contractSelectionReply_def contractReadyReply_def)

subsection \<open>Image classification\<close>

text \<open>
  Claim C4. A right-click on an image whose natural width or natural height is
  below 50 pixels tracks nothing: \<^verbatim>\<open>isValidImage\<close> rejects the image, and the
  handler leaves every variable as it was and emits no notification.
\<close>

theorem small_image_not_tracked:
  assumes "naturalWidth target < 50 \<or> naturalHeight target < 50"
  shows "\<not> isValidImage (Some target)
         \<and> handleContextMenu ev target s = (s, [])
         \<and> step (ev, ContextMenu target) s = (s, [])"
  using assms
  by (auto simp add: isValidImage_def handleContextMenu_def step_def minSize_def)

theorem small_image_not_tracked_witness:
  "(naturalWidth tinyImage < 50 \<or> naturalHeight tinyImage < 50)
   \<and> \<not> isValidImage (Some tinyImage)
   \<and> handleContextMenu (pageAt 1000 []) tinyImage (initialTracker pageUrl) =
       (initialTracker pageUrl, [])"
  using small_image_not_tracked [of tinyImage "pageAt 1000 []" "initialTracker pageUrl"]
  by (simp add: tinyImage_def)

subsection \<open>Text classification and the length bound\<close>

lemma jsSubstring_from_0: "jsSubstring s 0 n = take n s"
  by (cases "n \<le> length s") (simp_all add: jsSubstring_def min_def)

lemma jsTrim_replicate:
  assumes "\<not> isTrimUnit c"
  shows "jsTrim (replicate n c) = replicate n c"
proof -
  have "dropWhile isTrimUnit (replicate n c) = replicate n c"
    using assms by (cases n) simp_all
  then show ?thesis by (simp add: jsTrim_def)
qed

lemma fst_run_Cons: "fst (run (x # xs) s) = fst (run xs (fst (step x s)))"
  by (simp split: prod.splits)

text \<open>
  Claim C2. A selection-change event whose trimmed text is shorter than
  \<open>MIN_TEXT_LENGTH\<close> (3) is classified as none: the handler builds no selection
  object and emits no notification, the current selection afterwards is none or
  a selection that was already held before the event, and \<^verbatim>\<open>extractSelectedText\<close>
  returns none for the same selection.
\<close>

theorem short_text_not_classified:
  assumes sel: "getSelection ev = Some sel"
      and short: "length (jsTrim (selString sel)) < MIN_TEXT_LENGTH"
  shows "snd (handleSelectionChange ev s) = []
       \<and> nextOid (fst (handleSelectionChange ev s)) = nextOid s
       \<and> (selectedContent (fst (handleSelectionChange ev s)) = None
          \<or> selectedContent (fst (handleSelectionChange ev s)) = lastSelection s
          \<or> selectedContent (fst (handleSelectionChange ev s)) = selectedContent s)
       \<and> (lastSelection (fst (handleSelectionChange ev s)) = None
          \<or> lastSelection (fst (handleSelectionChange ev s)) = lastSelection s)
       \<and> extractSelectedText ev = None
       \<and> MIN_TEXT_LENGTH = 3"
  using sel short
  by (auto simp add: handleSelectionChange_def extractSelectedText_def Let_def
      MIN_TEXT_LENGTH_def split: option.splits)

theorem short_text_not_classified_witness:
  "length (jsTrim (js '' a '')) < MIN_TEXT_LENGTH
   \<and> snd (handleSelectionChange (pageAt 1000 (js '' a ''))
            (fst (step (pageAt 0 (js ''hello''), SelectionChange) (initialTracker pageUrl)))) = []
   \<and> extractSelectedText (pageAt 1000 (js '' a '')) = None"
proof -
  have sel: "getSelection (pageAt 1000 (js '' a '')) =
               Some \<lparr> selString = js '' a '', rangeCount = 1, containerText = js '' a '',
                      containerElement = Some bodyText \<rparr>"
    by (simp add: pageAt_def js_def)
  have short: "length (jsTrim (js '' a '')) < MIN_TEXT_LENGTH"
    by (simp add: jsTrim_def js_def isTrimUnit_def MIN_TEXT_LENGTH_def)
  show ?thesis
    using short
      short_text_not_classified [of "pageAt 1000 (js '' a '')", OF sel,
        of "fst (step (pageAt 0 (js ''hello''), SelectionChange) (initialTracker pageUrl))"]
    by simp
qed

lemma handleSelectionChange_bounds:
  assumes "textBounds s"
  shows "textBounds (fst (handleSelectionChange ev s))"
  using assms
  by (auto simp add: handleSelectionChange_def textBounds_def withinBounds_def Let_def
      jsSubstring_from_0 MIN_TEXT_LENGTH_def MAX_TEXT_LENGTH_def
      split: option.splits content.splits)

lemma cleanup_bounds:
  assumes "textBounds s"
  shows "textBounds (cleanupOldSelections ev s)"
  using assms
  by (auto simp add: cleanupOldSelections_def textBounds_def withinBounds_def
      split: option.splits content.splits)

lemma contextMenu_bounds:
  assumes "textBounds s"
  shows "textBounds (fst (handleContextMenu ev t s))"
  using assms
  by (auto simp add: handleContextMenu_def textBounds_def withinBounds_def Let_def
      split: option.splits content.splits)

lemma clearSelection_bounds: "textBounds (fst (clearSelection ev s))"
  by (simp add: clearSelection_def textBounds_def withinBounds_def)

lemma handleMessage_bounds:
  assumes "textBounds s"
  shows "textBounds (fst (handleMessage ev m s))"
  using assms clearSelection_bounds [of ev s]
  by (cases m) (auto simp add: handleMessage_def split: prod.splits)

lemma visibility_bounds:
  assumes "textBounds s"
  shows "textBounds (handleVisibilityChange ev s)"
  using assms
  by (auto simp add: handleVisibilityChange_def textBounds_def withinBounds_def
      split: option.splits content.splits)

lemma imageClick_bounds:
  assumes "textBounds s"
  shows "textBounds (handleImageClick ev t s)"
  using assms by (simp add: handleImageClick_def textBounds_def)

lemma urlObserver_bounds:
  assumes "textBounds s"
  shows "textBounds (fst (urlObserver ev s))"
  using assms clearSelection_bounds [of ev "s\<lparr>currentUrl := href ev\<rparr>"]
  by (simp add: urlObserver_def)

lemma initialize_bounds:
  assumes "textBounds s"
  shows "textBounds (fst (initializeContentScript ev s))"
  using assms handleSelectionChange_bounds [OF assms, of ev]
  by (auto simp add: initializeContentScript_def initializeSelectionState_def textBounds_def
      split: option.splits prod.splits)

lemma step_bounds:
  assumes "textBounds s"
  shows "textBounds (fst (step x s))"
proof (cases x)
  case (Pair ev e)
  then show ?thesis
    using assms
    by (cases e)
      (simp_all add: step_def handleSelectionChange_bounds cleanup_bounds contextMenu_bounds
        handleMessage_bounds visibility_bounds imageClick_bounds urlObserver_bounds
        initialize_bounds)
qed

lemma run_bounds:
  assumes "textBounds s"
  shows "textBounds (fst (run xs s))"
  using assms
proof (induction xs arbitrary: s)
  case Nil
  then show ?case by simp
next
  case (Cons x xs)
  from Cons.prems have "textBounds (fst (step x s))" by (rule step_bounds)
  then have "textBounds (fst (run xs (fst (step x s))))" by (rule Cons.IH)
  then show ?case by (simp only: fst_run_Cons)
qed

lemma long_text_truncated:
  assumes "getSelection ev = Some sel"
      and "MAX_TEXT_LENGTH < length (jsTrim (selString sel))"
  shows "selectedContent (fst (handleSelectionChange ev s)) =
           Some (TextContent (nextOid s) (take MAX_TEXT_LENGTH (jsTrim (selString sel)))
                  (extractDetailedSelection sel (take MAX_TEXT_LENGTH (jsTrim (selString sel))))
                  (now ev) (href ev))"
  using assms
  by (auto simp add: handleSelectionChange_def Let_def jsSubstring_from_0
      MIN_TEXT_LENGTH_def MAX_TEXT_LENGTH_def)

text \<open>
  Claim C3. The bound is an invariant of the tracker: it holds when the script is
  loaded, and every operation (each event of \<open>step\<close>, hence every run of events)
  keeps it, so a current text selection always has between 3 and 10000 code
  units. A selection-change event whose trimmed text is longer than
  \<open>MAX_TEXT_LENGTH\<close> stores the first \<open>MAX_TEXT_LENGTH\<close> code units of it.
\<close>

theorem text_length_invariant:
  assumes "textBounds s"
  shows "textBounds (initialTracker u)
       \<and> textBounds (fst (step x s))
       \<and> textBounds (fst (run xs s))
       \<and> withinBounds (selectedContent (fst (run xs s)))
       \<and> (getSelection ev = Some sel \<and> MAX_TEXT_LENGTH < length (jsTrim (selString sel)) \<longrightarrow>
            selectedContent (fst (handleSelectionChange ev s)) =
              Some (TextContent (nextOid s) (take MAX_TEXT_LENGTH (jsTrim (selString sel)))
                     (extractDetailedSelection sel
                        (take MAX_TEXT_LENGTH (jsTrim (selString sel))))
                     (now ev) (href ev)))
       \<and> MIN_TEXT_LENGTH = 3 \<and> MAX_TEXT_LENGTH = 10000"
proof -
  have init: "textBounds (initialTracker u)"
    by (simp add: initialTracker_def textBounds_def withinBounds_def)
  have one: "textBounds (fst (step x s))"
    using assms by (rule step_bounds)
  have many: "textBounds (fst (run xs s))"
    using assms by (rule run_bounds)
  from many have cur: "withinBounds (selectedContent (fst (run xs s)))"
    by (simp add: textBounds_def)
  from init one many cur show ?thesis
    by (simp add: long_text_truncated MIN_TEXT_LENGTH_def MAX_TEXT_LENGTH_def)
qed

theorem text_length_invariant_witness:
  "textBounds (initialTracker pageUrl)
   \<and> MAX_TEXT_LENGTH < length (jsTrim (replicate 10001 0x61))
   \<and> textBounds (fst (step (pageAt 0 (replicate 10001 0x61), SelectionChange)
                       (initialTracker pageUrl)))
   \<and> map_option (\<lambda>c. length (selText c))
        (selectedContent (fst (handleSelectionChange (pageAt 0 (replicate 10001 0x61))
                                (initialTracker pageUrl)))) = Some 10000"
proof -
  let ?txt = "replicate 10001 (0x61 :: 16 word)"
  let ?sel = "\<lparr> selString = ?txt, rangeCount = 1, containerText = ?txt,
                containerElement = Some bodyText \<rparr>"
  have init: "textBounds (initialTracker pageUrl)"
    by (simp add: initialTracker_def textBounds_def withinBounds_def)
  have trim: "jsTrim ?txt = ?txt"
    by (rule jsTrim_replicate) (simp add: isTrimUnit_def)
  have sel: "getSelection (pageAt 0 ?txt) = Some ?sel"
    by (simp add: pageAt_def)
  have long: "MAX_TEXT_LENGTH < length (jsTrim (selString ?sel))"
    by (simp add: trim MAX_TEXT_LENGTH_def)
  note inst = text_length_invariant [OF init, of pageUrl
      "(pageAt 0 ?txt, SelectionChange)" "[]" "pageAt 0 ?txt" ?sel]
  from inst sel long
  have stored: "selectedContent (fst (handleSelectionChange (pageAt 0 ?txt)
                   (initialTracker pageUrl))) =
                Some (TextContent (nextOid (initialTracker pageUrl))
                       (take MAX_TEXT_LENGTH (jsTrim (selString ?sel)))
                       (extractDetailedSelection ?sel
                          (take MAX_TEXT_LENGTH (jsTrim (selString ?sel))))
                       (now (pageAt 0 ?txt)) (href (pageAt 0 ?txt)))"
    by blast
  have len: "length (take MAX_TEXT_LENGTH (jsTrim (selString ?sel))) = 10000"
    by (simp add: trim MAX_TEXT_LENGTH_def)
  from inst have stepped: "textBounds (fst (step (pageAt 0 ?txt, SelectionChange)
                              (initialTracker pageUrl)))"
    by blast
  from init long stepped show ?thesis
    by (simp add: stored trim MAX_TEXT_LENGTH_def)
qed

subsection \<open>The grace period\<close>

lemma graceState_eq:
  "graceState =
     \<lparr> selectedContent = Some helloSelection, lastSelection = Some helloSelection,
       selectedImage = None, isInitialized = True, currentUrl = pageUrl, nextOid = 1 \<rparr>"
  by (simp add: graceState_def step_def handleSelectionChange_def pageAt_def initialTracker_def
      initializeContentScript_def initializeSelectionState_def
      jsTrim_def isTrimUnit_def jsSubstring_from_0 Let_def helloSelection_def
      MIN_TEXT_LENGTH_def MAX_TEXT_LENGTH_def SELECTION_TIMEOUT_def js_def)

lemma cleanup_measures_from_capture:
  assumes "selectedContent s = Some l" and "lastSelection s = Some l"
      and "now ev - timestamp l > SELECTION_TIMEOUT"
  shows "selectedContent (cleanupOldSelections ev s) = None"
  using assms by (simp add: cleanupOldSelections_def sameObject_def)

text \<open>
  Claim C1, on a run of the code. The text \<open>hello world\<close> is selected at time 0
  and cleared at time 1000: the grace branch keeps the selection, and the query
  returns it. The comments of the source give the grace period as 5 seconds after
  deselection, so the selection is due until time 6000. The cleanup tick at time
  5500 compares the clock with the timestamp of the selection, which is the time
  it was made, finds more than \<open>SELECTION_TIMEOUT\<close> and drops it: the query at
  time 5600 returns none, 4600 ms after the deselection. The same comparison
  drops, at the tick of time 6000, a selection that is still selected on the
  page.
\<close>

theorem grace_selection_dropped_early:
  "getCurrentSelection (pageAt 1000 []) graceState = Some helloSelection
   \<and> getCurrentSelection (pageAt 5600 [])
         (fst (run [(pageAt 5500 [], CleanupTick)] graceState)) = None
   \<and> getCurrentSelection (pageAt 6100 (js ''hello world''))
         (fst (run stillSelectedRun (initialTracker pageUrl))) = None
   \<and> SELECTION_TIMEOUT = 5000"
  by (simp add: graceState_eq stillSelectedRun_def getCurrentSelection_def handleMessage_def
      step_def cleanupOldSelections_def handleSelectionChange_def initializeContentScript_def
      initializeSelectionState_def initialTracker_def pageAt_def helloSelection_def
      jsTrim_def isTrimUnit_def jsSubstring_from_0 Let_def sameObject_def
      MIN_TEXT_LENGTH_def MAX_TEXT_LENGTH_def SELECTION_TIMEOUT_def js_def)

subsection \<open>Image selections and the grace period\<close>

text \<open>
  Every state reached from the loaded script is well formed, and in a well-formed
  state neither the cleanup tick nor a selection-change event run after the
  timeout of the last text selection removes a current image selection.
\<close>

lemma handleSelectionChange_wf:
  assumes "wellFormed s"
  shows "wellFormed (fst (handleSelectionChange ev s))"
  using assms
  by (auto simp add: handleSelectionChange_def wellFormed_def Let_def
      split: option.splits if_splits)

lemma cleanup_wf:
  assumes "wellFormed s"
  shows "wellFormed (cleanupOldSelections ev s)"
  using assms
  by (auto simp add: cleanupOldSelections_def wellFormed_def sameObject_def
      split: option.splits if_splits)

lemma contextMenu_wf:
  assumes "wellFormed s"
  shows "wellFormed (fst (handleContextMenu ev t s))"
  using assms
  by (auto simp add: handleContextMenu_def wellFormed_def Let_def
      split: option.splits if_splits)

lemma clearSelection_wf: "wellFormed (fst (clearSelection ev s))"
  by (simp add: clearSelection_def wellFormed_def)

lemma handleMessage_wf:
  assumes "wellFormed s"
  shows "wellFormed (fst (handleMessage ev m s))"
  using assms clearSelection_wf [of ev s]
  by (cases m) (auto simp add: handleMessage_def split: prod.splits)

lemma visibility_wf:
  assumes "wellFormed s"
  shows "wellFormed (handleVisibilityChange ev s)"
  using assms
  by (auto simp add: handleVisibilityChange_def wellFormed_def
      split: option.splits if_splits)

lemma imageClick_wf:
  assumes "wellFormed s"
  shows "wellFormed (handleImageClick ev t s)"
  using assms by (auto simp add: handleImageClick_def wellFormed_def split: option.splits)

lemma urlObserver_wf:
  assumes "wellFormed s"
  shows "wellFormed (fst (urlObserver ev s))"
  using assms clearSelection_wf [of ev "s\<lparr>currentUrl := href ev\<rparr>"]
  by (simp add: urlObserver_def)

lemma initialize_wf:
  assumes "wellFormed s"
  shows "wellFormed (fst (initializeContentScript ev s))"
  using assms handleSelectionChange_wf [OF assms, of ev]
  by (auto simp add: initializeContentScript_def initializeSelectionState_def wellFormed_def
      split: option.splits prod.splits)

lemma step_wf:
  assumes "wellFormed s"
  shows "wellFormed (fst (step x s))"
proof (cases x)
  case (Pair ev e)
  then show ?thesis
    using assms
    by (cases e)
      (simp_all add: step_def handleSelectionChange_wf cleanup_wf contextMenu_wf
        handleMessage_wf visibility_wf imageClick_wf urlObserver_wf initialize_wf)
qed

lemma run_wf:
  assumes "wellFormed s"
  shows "wellFormed (fst (run xs s))"
  using assms
proof (induction xs arbitrary: s)
  case Nil
  then show ?case by simp
next
  case (Cons x xs)
  from Cons.prems have "wellFormed (fst (step x s))" by (rule step_wf)
  then have "wellFormed (fst (run xs (fst (step x s))))" by (rule Cons.IH)
  then show ?case by (simp only: fst_run_Cons)
qed

lemma reachable_wf: "wellFormed (fst (run xs (initialTracker u)))"
  by (rule run_wf) (simp add: initialTracker_def wellFormed_def)

lemma sameObject_iff_equal:
  assumes "wellFormed s"
  shows "sameObject (selectedContent s) (lastSelection s) \<longleftrightarrow> selectedContent s = lastSelection s"
  using assms
  by (auto simp add: wellFormed_def sameObject_def split: option.splits if_splits)

lemma image_survives_timeout:
  assumes "wellFormed s" and "selectedContent s = Some c" and "isImage c"
  shows "selectedContent (cleanupOldSelections ev s) = Some c"
    and "\<not> qualifiesText ev \<Longrightarrow>
           (case lastSelection s of
              None \<Rightarrow> True
            | Some l \<Rightarrow> now ev - timestamp l \<ge> SELECTION_TIMEOUT) \<Longrightarrow>
           selectedContent (fst (handleSelectionChange ev s)) = Some c"
  using assms
  by (cases c; auto simp add: cleanupOldSelections_def handleSelectionChange_def wellFormed_def
      sameObject_def qualifiesText_def Let_def split: option.splits if_splits)+

lemma fst_run_append: "fst (run (xs @ ys) s) = fst (run ys (fst (run xs s)))"
proof (induction xs arbitrary: s)
  case Nil
  show ?case by simp
next
  case (Cons x xs)
  show ?case by (simp only: append_Cons fst_run_Cons Cons.IH)
qed

lemma imageRun_eq:
  "fst (run imageRun (initialTracker pageUrl)) =
     \<lparr> selectedContent = Some photoSelection, lastSelection = Some helloSelection,
       selectedImage = None, isInitialized = True, currentUrl = pageUrl, nextOid = 2 \<rparr>"
  by (simp add: imageRun_def step_def handleSelectionChange_def pageAt_def initialTracker_def
      initializeContentScript_def initializeSelectionState_def handleContextMenu_def
      extractImageData_def isValidImage_def minSize_def isElementVisible_def photo_def
      jsTrim_def isTrimUnit_def jsSubstring_from_0 Let_def helloSelection_def photoSelection_def
      MIN_TEXT_LENGTH_def MAX_TEXT_LENGTH_def SELECTION_TIMEOUT_def pageUrl_def js_def)

text \<open>
  Claim C10, on a run of the code. The text \<open>hello world\<close> is selected at time 0
  and the photo is right-clicked at time 1000, which makes the image selection
  current. A cleanup tick at time 6000, when the text selection has expired,
  leaves the image selection current, and so does a selection-change event with
  an empty selection at time 6000 (the branch that clears only a text selection).
  But a selection-change event with an empty selection at time 2000, within the
  grace period of the text, takes the grace branch, which assigns the last text
  selection: the older text selection replaces the image selection.
\<close>

theorem image_selection_replaced_by_older_text:
  "selectedContent (fst (run imageRun (initialTracker pageUrl))) = Some photoSelection
   \<and> selectedContent (fst (run (imageRun @ [(pageAt 6000 [], CleanupTick)])
                             (initialTracker pageUrl))) = Some photoSelection
   \<and> selectedContent (fst (run (imageRun @ [(pageAt 6000 [], SelectionChange)])
                             (initialTracker pageUrl))) = Some photoSelection
   \<and> selectedContent (fst (run (imageRun @ [(pageAt 2000 [], SelectionChange)])
                             (initialTracker pageUrl))) = Some helloSelection"
  by (simp add: fst_run_append imageRun_eq step_def handleSelectionChange_def
      cleanupOldSelections_def pageAt_def jsTrim_def helloSelection_def photoSelection_def
      SELECTION_TIMEOUT_def sameObject_def Let_def)

subsection \<open>Background service worker\<close>

text \<open>
  Claim C9. Whatever its payload and whatever the state, a process-content request
  is answered with \<^verbatim>\<open>success: false\<close> and the message that content processing is
  not implemented yet; the listener changes nothing and answers nothing else.
\<close>

theorem process_content_not_available:
  "onMessage rejected (PROCESS_CONTENT d) b =
     (b, [ErrorReply False (js ''Content processing will be implemented in future tasks'')])"
  by (simp add: onMessage_def handleProcessContent_def)

text \<open>
  Claim C7. When a set-storage request is accepted, a get-storage request that
  follows it and that the store serves returns, for every key of the written
  object that it asks for, exactly the value written; asked for that key alone,
  the reply holds that one item and nothing else. The listener passes the
  request's data to the store and the store's result to the reply as they are.
\<close>

theorem storage_round_trip:
  assumes accepted: "onMessage rejected (SET_STORAGE d) b = (b', [PlainReply True])"
      and written: "d k = Some v"
      and asked: "asksFor keys k"
  shows "onMessage None (GET_STORAGE keys) b' =
           (b', [DataReply True (storageGet (storage b') keys)])
       \<and> storageGet (storage b') keys k = Some v
       \<and> storageGet (storage b') (OneKey k) = [k \<mapsto> v]
       \<and> storage b' = storageSet (storage b) d"
proof -
  from accepted have st: "storage b' = storage b ++ d"
    by (auto simp add: onMessage_def handleSetStorage_def storageSet_def split: option.splits)
  have held: "storage b' k = Some v"
    using st written by simp
  have fwd: "onMessage None (GET_STORAGE keys) b' =
               (b', [DataReply True (storageGet (storage b') keys)])"
    by (simp add: onMessage_def handleGetStorage_def)
  have got: "storageGet (storage b') keys k = Some v"
    using held asked
    by (cases keys) (auto simp add: storageGet_def asksFor_def restrict_map_def map_add_def)
  have one: "storageGet (storage b') (OneKey k) = [k \<mapsto> v]"
    using held by (auto simp add: storageGet_def restrict_map_def fun_eq_iff)
  from fwd got one st show ?thesis
    by (simp add: storageSet_def)
qed

theorem storage_round_trip_witness:
  "onMessage None (GET_STORAGE (OneKey (js ''note'')) :: (jsstring, unit) bg_message)
     (fst (onMessage None
            (SET_STORAGE [js ''note'' \<mapsto> js ''saved text'', js ''other'' \<mapsto> js ''x'']
               :: (jsstring, unit) bg_message)
            emptyBackground)) =
   (fst (onMessage None
          (SET_STORAGE [js ''note'' \<mapsto> js ''saved text'', js ''other'' \<mapsto> js ''x'']
             :: (jsstring, unit) bg_message)
          emptyBackground),
    [DataReply True [js ''note'' \<mapsto> js ''saved text'']])"
proof -
  let ?d = "[js ''note'' \<mapsto> js ''saved text'', js ''other'' \<mapsto> js ''x'']"
  let ?b' = "emptyBackground\<lparr>storage := storageSet (storage emptyBackground) ?d\<rparr>"
  have accepted:
    "onMessage None (SET_STORAGE ?d :: (jsstring, unit) bg_message) emptyBackground =
       (?b', [PlainReply True])"
    by (simp add: onMessage_def handleSetStorage_def)
  have written: "?d (js ''note'') = Some (js ''saved text'')"
    by (simp add: js_def)
  have asked: "asksFor (OneKey (js ''note'')) (js ''note'')"
    by (simp add: asksFor_def)
  have "onMessage None (GET_STORAGE (OneKey (js ''note'')) :: (jsstring, unit) bg_message) ?b' =
          (?b', [DataReply True (storageGet (storage ?b') (OneKey (js ''note'')))])
        \<and> storageGet (storage ?b') (OneKey (js ''note'')) =
            [js ''note'' \<mapsto> js ''saved text'']"
    using storage_round_trip [OF accepted written asked] by blast
  then show ?thesis
    unfolding accepted fst_conv by simp
qed

subsection \<open>Popup: the action controls\<close>

lemma hideLoading_last: "last (hideLoadingStates p) = hideLoading p"
  by (cases "currentContent p") (simp_all add: hideLoadingStates_def hideLoading_def Let_def)

lemma hideLoadingStates_nonempty: "hideLoadingStates p \<noteq> []"
  by (simp add: hideLoadingStates_def Let_def)

lemma showError_last: "last (showErrorStates m p) = showError m p"
  by (simp add: showErrorStates_def showError_def Let_def hideLoading_last
      hideLoadingStates_nonempty)

lemma clickAction_enabled:
  assumes "\<not> actionDisabled a p"
  shows "clickAction a p = (showError (actionError a) p, [])"
  using assms
  by (cases a)
    (simp_all add: clickAction_def actionError_def handleSummarize_def handleSimplify_def
      handleDescribe_def handleTranslate_def)

lemma clickAction_disabled:
  assumes "actionDisabled a p"
  shows "clickAction a p = (p, [])"
  using assms by (simp add: clickAction_def)

lemma clickAction_no_call: "snd (clickAction a p) = []"
  by (cases "actionDisabled a p") (simp_all add: clickAction_enabled clickAction_disabled)

lemma enable_isProcessing: "isProcessing (enableActionButtons c p) = isProcessing p"
  by (simp add: enableActionButtons_def disableActionButtons_def Let_def)

lemma enable_enabledFor: "enabledFor c (enableActionButtons c p)"
  by (cases c)
    (simp_all add: enableActionButtons_def disableActionButtons_def enabledFor_def Let_def)

lemma hideLoading_props:
  "\<not> isProcessing (hideLoading p)
   \<and> (currentContent p = Some c \<longrightarrow> enabledFor c (hideLoading p))"
  by (cases "currentContent p")
    (simp_all add: hideLoading_def Let_def enable_isProcessing enable_enabledFor)

lemma showError_props:
  "\<not> isProcessing (showError m p)
   \<and> (currentContent p = Some c \<longrightarrow> enabledFor c (showError m p))"
  using hideLoading_props [of "p\<lparr>errorMessage := m, errorHidden := False\<rparr>" c]
  by (simp add: showError_def)

lemma showLoading_props: "isProcessing (showLoading m p) \<and> allDisabled (showLoading m p)"
  by (simp add: showLoading_def disableActionButtons_def allDisabled_def)

lemma allDisabled_actionDisabled:
  assumes "allDisabled p"
  shows "actionDisabled a p"
  using assms by (cases a) (simp_all add: allDisabled_def actionDisabled_def)

text \<open>
  Claim C5, as the code has it. The four operations are placeholders that call no
  AI capability, so no request is ever in flight. A click on a disabled control
  runs nothing. A click on an enabled control runs its handler to completion
  through \<^verbatim>\<open>showError\<close> and \<^verbatim>\<open>hideLoading\<close>: afterwards \<^verbatim>\<open>isProcessing\<close> is
  false and, when a selection is present, exactly the controls for its type are
  enabled. The exclusion itself is in \<^verbatim>\<open>showLoading\<close> and \<^verbatim>\<open>hideLoading\<close>:
  \<^verbatim>\<open>showLoading\<close> sets \<^verbatim>\<open>isProcessing\<close> and disables all four controls, in that
  state a click on any of them runs nothing, and \<^verbatim>\<open>hideLoading\<close> clears
  \<^verbatim>\<open>isProcessing\<close> and enables exactly the controls for the selection's type.
\<close>

theorem action_controls_protocol:
  "snd (clickAction a p) = []
   \<and> (actionDisabled a p \<longrightarrow> fst (clickAction a p) = p)
   \<and> (\<not> actionDisabled a p \<longrightarrow>
        fst (clickAction a p) = showError (actionError a) p
        \<and> \<not> isProcessing (fst (clickAction a p))
        \<and> (currentContent p = Some c \<longrightarrow> enabledFor c (fst (clickAction a p))))
   \<and> isProcessing (showLoading m p) \<and> allDisabled (showLoading m p)
   \<and> clickAction a (showLoading m p) = (showLoading m p, [])
   \<and> \<not> isProcessing (hideLoading p)
   \<and> (currentContent p = Some c \<longrightarrow> enabledFor c (hideLoading p))"
proof -
  have idle: "clickAction a (showLoading m p) = (showLoading m p, [])"
    using showLoading_props [of m p]
    by (intro clickAction_disabled allDisabled_actionDisabled) simp
  show ?thesis
    using showError_props [of "actionError a" p c] hideLoading_props [of p c]
      showLoading_props [of m p] idle
    by (simp add: clickAction_no_call clickAction_enabled clickAction_disabled)
qed

theorem action_controls_protocol_witness:
  "\<not> actionDisabled Summarize readyPopup
   \<and> currentContent readyPopup = Some helloSelection
   \<and> clickAction Summarize readyPopup =
       (showError (actionError Summarize) readyPopup, [])
   \<and> enabledFor helloSelection (fst (clickAction Summarize readyPopup))
   \<and> actionDisabled Describe readyPopup
   \<and> fst (clickAction Describe readyPopup) = readyPopup
   \<and> enabledFor helloSelection (hideLoading readyPopup)"
proof -
  have en: "\<not> actionDisabled Summarize readyPopup"
    by (simp add: actionDisabled_def readyPopup_def)
  have dis: "actionDisabled Describe readyPopup"
    by (simp add: actionDisabled_def readyPopup_def)
  have cur: "currentContent readyPopup = Some helloSelection"
    by (simp add: readyPopup_def)
  note s = action_controls_protocol [of Summarize readyPopup helloSelection "[]"]
  note d = action_controls_protocol [of Describe readyPopup helloSelection "[]"]
  from s en cur have "fst (clickAction Summarize readyPopup) =
        showError (actionError Summarize) readyPopup
      \<and> snd (clickAction Summarize readyPopup) = []
      \<and> enabledFor helloSelection (fst (clickAction Summarize readyPopup))
      \<and> enabledFor helloSelection (hideLoading readyPopup)"
    by blast
  moreover from d dis have "fst (clickAction Describe readyPopup) = readyPopup"
    by blast
  ultimately show ?thesis
    using en dis cur by (auto simp add: prod_eq_iff)
qed

text \<open>
  The claim as stated fails on \<open>readyPopup\<close>: a click on the enabled summarize
  control runs \<^verbatim>\<open>handleSummarize\<close>, and of the six states the handler passes
  through from its first statement to its return, none has \<^verbatim>\<open>isProcessing\<close> set
  and only the fifth (the reset inside \<^verbatim>\<open>enableActionButtons\<close>) has all four
  controls disabled.
\<close>

theorem action_controls_counterexample:
  "\<not> actionDisabled Summarize readyPopup
   \<and> fst (clickAction Summarize readyPopup) =
       last (showErrorStates (actionError Summarize) readyPopup)
   \<and> map allDisabled (showErrorStates (actionError Summarize) readyPopup) =
       [False, False, False, False, True, False]
   \<and> map isProcessing (showErrorStates (actionError Summarize) readyPopup) =
       [False, False, False, False, False, False]"
proof -
  have en: "\<not> actionDisabled Summarize readyPopup"
    by (simp add: actionDisabled_def readyPopup_def)
  have "map allDisabled (showErrorStates (actionError Summarize) readyPopup) =
          [False, False, False, False, True, False]
        \<and> map isProcessing (showErrorStates (actionError Summarize) readyPopup) =
          [False, False, False, False, False, False]"
    by (simp add: showErrorStates_def hideLoadingStates_def Let_def readyPopup_def
        allDisabled_def disableActionButtons_def enableActionButtons_def helloSelection_def)
  with en show ?thesis
    by (simp add: clickAction_enabled showError_last)
qed

end
